theory Spec2Isabelle
  imports Main "HOL-Library.Char_ord" "HOL-Library.List_Lexorder"
begin

section \<open>Status model (package state)\<close>

text \<open>
  Modelled from the spec: the declaration of the Go type \<open>SyncState\<close> and of its
  constants is not part of the sources at hand. The code of \<open>manager.go\<close> uses the three
  constants \<open>SyncStateReady\<close>, \<open>SyncStateNotReady\<close> and \<open>SyncStateError\<close>, the
  statuses Ready, NotReady and Error of the specification. A Go defined type is not closed
  to the constants declared for it, and the code compares a status with \<open>SyncStateNotReady\<close>
  and \<open>SyncStateError\<close> only: every other value a \<open>Sync\<close> may return is a
  \<open>SyncStateOther\<close>, with the underlying value.
\<close>

datatype SyncState =
    SyncStateReady
  | SyncStateNotReady
  | SyncStateError
  | SyncStateOther string

text \<open>
  A Go \<open>error\<close> value is built with \<open>errors.New\<close> or by \<open>errors.Wrap\<close> around
  another error; a nil error is \<open>None\<close> of \<open>error option\<close>.
\<close>

datatype error = New string | Wrap error string

text \<open>\<open>type Result struct\<close> and \<open>type Results struct\<close> of \<open>manager.go\<close>.\<close>

record Result =
  StateName :: string
  Status :: SyncState
  ErrInfo :: "error option"

record Results =
  Status :: SyncState
  StatesStatus :: "Result list"

section \<open>The State interface\<close>

text \<open>
  A \<open>State\<close> is an interface value: its methods are the fields of a record. \<open>Sync\<close>
  acts on the cluster, so it takes the world \<open>'w\<close> and returns the world it leaves
  behind next to its two Go results. \<open>GetWatchSources\<close> returns a Go map from kind name
  to kind, given here by its entries.
\<close>

record ('cr, 'cat, 'w, 'k) State =
  Name :: string
  Description :: string
  Sync :: "'cr \<Rightarrow> 'cat \<Rightarrow> 'w \<Rightarrow> (SyncState \<times> error option) \<times> 'w"
  GetWatchSources :: "(string \<times> 'k) list"

section \<open>The state manager\<close>

text \<open>\<open>type stateManager struct\<close>; its \<open>client\<close> field is read by neither method.\<close>

record ('cr, 'cat, 'w, 'k) stateManager =
  states :: "('cr, 'cat, 'w, 'k) State list"

text \<open>
  The body of \<open>for _, state := range smgr.states\<close> in \<open>SyncState\<close>: the loop carries
  \<open>managerResult\<close>, \<open>statesReady\<close> and the world.
\<close>

fun SyncState_loop ::
  "('cr, 'cat, 'w, 'k) State list \<Rightarrow> 'cr \<Rightarrow> 'cat \<Rightarrow> Results \<times> bool \<Rightarrow> 'w
    \<Rightarrow> (Results \<times> bool) \<times> 'w" where
  "SyncState_loop [] customResource infoCatalog (managerResult, statesReady) w =
     ((managerResult, statesReady), w)"
| "SyncState_loop (state # rest) customResource infoCatalog (managerResult, statesReady) w =
     (case Sync state customResource infoCatalog w of
        ((ss, err), w') \<Rightarrow>
          let result = \<lparr>StateName = Name state, Status = ss, ErrInfo = err\<rparr>;
              managerResult' =
                managerResult\<lparr>StatesStatus := StatesStatus managerResult @ [result]\<rparr>;
              statesReady' =
                (if Result.Status result = SyncStateNotReady
                    \<or> Result.Status result = SyncStateError
                 then False else statesReady)
          in SyncState_loop rest customResource infoCatalog (managerResult', statesReady') w')"

definition stateManager_SyncState ::
  "('cr, 'cat, 'w, 'k) stateManager \<Rightarrow> 'cr \<Rightarrow> 'cat \<Rightarrow> 'w \<Rightarrow> Results \<times> 'w" where
  "stateManager_SyncState smgr customResource infoCatalog w =
     (case SyncState_loop (states smgr) customResource infoCatalog
             (\<lparr>Status = SyncStateNotReady, StatesStatus = []\<rparr>, True) w of
        ((managerResult, statesReady), w') \<Rightarrow>
          (if statesReady then managerResult\<lparr>Results.Status := SyncStateReady\<rparr>
           else managerResult, w'))"


text \<open>
  \<open>GetWatchSources\<close>. The inner loop \<open>for name, kind := range wr\<close> adds an entry to
  \<open>kindMap\<close> only when the name is not yet a key of it.
\<close>

fun add_watch_sources :: "(string \<times> 'k) list \<Rightarrow> (string \<rightharpoonup> 'k) \<Rightarrow> (string \<rightharpoonup> 'k)" where
  "add_watch_sources [] kindMap = kindMap"
| "add_watch_sources ((name, kind) # wr) kindMap =
     add_watch_sources wr (if kindMap name = None then kindMap(name \<mapsto> kind) else kindMap)"

text \<open>The outer loop \<open>for _, state := range smgr.states\<close>.\<close>

fun kindMap_loop ::
  "('cr, 'cat, 'w, 'k) State list \<Rightarrow> (string \<rightharpoonup> 'k) \<Rightarrow> (string \<rightharpoonup> 'k)" where
  "kindMap_loop [] kindMap = kindMap"
| "kindMap_loop (state # rest) kindMap =
     kindMap_loop rest (add_watch_sources (GetWatchSources state) kindMap)"

text \<open>
  The loop \<open>for kindName, kind := range kindMap\<close> appends to \<open>kinds\<close> and to
  \<open>kindNames\<close> in step. Go leaves the order in which \<open>range\<close> visits the keys of a map
  to the runtime: \<open>visit\<close> is the order of this run, and \<open>range_order\<close> says what
  every such order satisfies (each key of the map once, and nothing else).
\<close>

definition range_order :: "('a \<rightharpoonup> 'b) \<Rightarrow> 'a list \<Rightarrow> bool" where
  "range_order m visit \<longleftrightarrow> distinct visit \<and> set visit = dom m"

fun kinds_loop ::
  "(string \<rightharpoonup> 'k) \<Rightarrow> string list \<Rightarrow> 'k list \<times> string list \<Rightarrow> 'k list \<times> string list" where
  "kinds_loop kindMap [] (kinds, kindNames) = (kinds, kindNames)"
| "kinds_loop kindMap (kindName # rest) (kinds, kindNames) =
     (case kindMap kindName of
        None \<Rightarrow> kinds_loop kindMap rest (kinds, kindNames)
      | Some kind \<Rightarrow> kinds_loop kindMap rest (kinds @ [kind], kindNames @ [kindName]))"

text \<open>
  The result is the pair of \<open>kinds\<close>, which the method returns, and \<open>kindNames\<close>,
  which it writes to the log.
\<close>

definition stateManager_GetWatchSources ::
  "('cr, 'cat, 'w, 'k) stateManager \<Rightarrow> string list \<Rightarrow> 'k list \<times> string list" where
  "stateManager_GetWatchSources smgr visit =
     kinds_loop (kindMap_loop (states smgr) Map.empty) visit ([], [])"

section \<open>The CNI plugins state\<close>

text \<open>
  The fields of the custom resource that \<open>stateCNIPlugins.Sync\<close> and
  \<open>getManifestObjects\<close> read (its name and namespace are only logged). A Go pointer
  that may be nil is an option. The types \<open>ImageSpec\<close>, \<open>Toleration\<close> and
  \<open>NodeAffinity\<close> are type parameters.
\<close>

record 'img SecondaryNetworkSpec =
  CniPlugins :: "'img option"

record ('img, 'tol, 'aff) NicClusterPolicySpec =
  SecondaryNetwork :: "'img SecondaryNetworkSpec option"
  Tolerations :: "'tol list"
  NodeAffinity :: "'aff option"

record ('img, 'tol, 'aff) NicClusterPolicy =
  Spec :: "('img, 'tol, 'aff) NicClusterPolicySpec"

record 'prov InfoCatalog =
  GetStaticConfigProvider :: "'prov option"

record runtimeSpec =
  Namespace :: string

record cniRuntimeSpec =
  runtimeSpec :: runtimeSpec
  CniBinDirectory :: string

record ('img, 'tol, 'aff) CNIPluginsManifestRenderData =
  CrSpec :: "'img option"
  Tolerations :: "'tol list"
  NodeAffinity :: "'aff option"
  RuntimeSpec :: "cniRuntimeSpec option"

text \<open>
  The embedded \<open>stateSkel\<close>: its renderer and the methods that \<open>Sync\<close> calls. Their
  code is not part of the sources at hand, so each is a parameter: a function of the world
  that returns its Go results and the world it leaves. \<open>createOrUpdateObjs\<close> also
  returns the objects, which its callback may have changed in place.
\<close>

record ('img, 'tol, 'aff, 'obj, 'w) stateSkel =
  name :: string
  description :: string
  RenderObjects ::
    "('img, 'tol, 'aff) CNIPluginsManifestRenderData \<Rightarrow> 'w \<Rightarrow> ('obj list \<times> error option) \<times> 'w"
  handleStateObjectsDeletion :: "'w \<Rightarrow> (SyncState \<times> error option) \<times> 'w"
  createOrUpdateObjs ::
    "('obj \<Rightarrow> error option \<times> 'obj) \<Rightarrow> 'obj list \<Rightarrow> 'w \<Rightarrow> (error option \<times> 'obj list) \<times> 'w"
  handleStaleStateObjects :: "'obj list \<Rightarrow> 'w \<Rightarrow> (bool \<times> error option) \<times> 'w"
  getSyncState :: "'obj list \<Rightarrow> 'w \<Rightarrow> (SyncState \<times> error option) \<times> 'w"

text \<open>
  Functions of other packages: \<open>config.FromEnv().State.NetworkOperatorResourceNamespace\<close>,
  \<open>utils.GetCniBinDirectory\<close> (called with a nil second argument) and
  \<open>controllerutil.SetControllerReference\<close> (with the scheme of the state).
\<close>

record ('cr, 'prov, 'obj) externals =
  NetworkOperatorResourceNamespace :: string
  GetCniBinDirectory :: "'prov \<Rightarrow> string"
  SetControllerReference :: "'cr \<Rightarrow> 'obj \<Rightarrow> error option \<times> 'obj"

text \<open>
  The calls \<open>Sync\<close> makes to the renderer and to the skeleton, in the order it makes
  them; the entry of the stale-object handling keeps the
  \<open>waitForStaleObjectsRemoval\<close> it returned.
\<close>

datatype call =
    Call_handleStateObjectsDeletion
  | Call_RenderObjects
  | Call_createOrUpdateObjs
  | Call_handleStaleStateObjects bool
  | Call_getSyncState

text \<open>
  \<open>getManifestObjects\<close>. It reads \<open>cr.Spec.SecondaryNetwork.CniPlugins\<close>: on a nil
  \<open>SecondaryNetwork\<close> the Go code panics, which is the result \<open>None\<close>.
\<close>

definition getManifestObjects ::
  "('img, 'tol, 'aff, 'obj, 'w) stateSkel
    \<Rightarrow> (('img, 'tol, 'aff) NicClusterPolicy, 'prov, 'obj) externals
    \<Rightarrow> ('img, 'tol, 'aff) NicClusterPolicy \<Rightarrow> 'prov \<Rightarrow> 'w
    \<Rightarrow> (('obj list \<times> error option) \<times> 'w) option" where
  "getManifestObjects s ext cr staticConfig w =
     (case SecondaryNetwork (Spec cr) of
        None \<Rightarrow> None
      | Some secondaryNetwork \<Rightarrow>
          let renderData =
                \<lparr>CrSpec = CniPlugins secondaryNetwork,
                 Tolerations = NicClusterPolicySpec.Tolerations (Spec cr),
                 NodeAffinity = NicClusterPolicySpec.NodeAffinity (Spec cr),
                 RuntimeSpec = Some
                   \<lparr>runtimeSpec = \<lparr>Namespace = NetworkOperatorResourceNamespace ext\<rparr>,
                    CniBinDirectory = GetCniBinDirectory ext staticConfig\<rparr>\<rparr>
          in (case RenderObjects s renderData w of
                ((objs, Some err), w') \<Rightarrow> Some (([], Some (Wrap err ''failed to render objects'')), w')
              | ((objs, None), w') \<Rightarrow> Some ((objs, None), w')))"

text \<open>The function literal that \<open>Sync\<close> hands to \<open>createOrUpdateObjs\<close>.\<close>

definition setControllerReference ::
  "('cr, 'prov, 'obj) externals \<Rightarrow> 'cr \<Rightarrow> 'obj \<Rightarrow> error option \<times> 'obj" where
  "setControllerReference ext cr obj =
     (case SetControllerReference ext cr obj of
        (Some err, obj') \<Rightarrow> (Some (Wrap err ''failed to set controller reference for object''), obj')
      | (None, obj') \<Rightarrow> (None, obj'))"

text \<open>
  The condition \<open>cr.Spec.SecondaryNetwork == nil || cr.Spec.SecondaryNetwork.CniPlugins == nil\<close>.
\<close>

definition cniPlugins_disabled :: "('img, 'tol, 'aff) NicClusterPolicy \<Rightarrow> bool" where
  "cniPlugins_disabled cr =
     (case SecondaryNetwork (Spec cr) of
        None \<Rightarrow> True
      | Some secondaryNetwork \<Rightarrow> CniPlugins secondaryNetwork = None)"

text \<open>
  \<open>stateCNIPlugins.Sync\<close>. The custom resource is taken at the type that the first
  line asserts, and the context, which carries the logger, is left out. The result is the
  pair of Go results, the world left behind and the calls made; \<open>None\<close> is a panic.
\<close>

definition stateCNIPlugins_Sync ::
  "('img, 'tol, 'aff, 'obj, 'w) stateSkel
    \<Rightarrow> (('img, 'tol, 'aff) NicClusterPolicy, 'prov, 'obj) externals
    \<Rightarrow> ('img, 'tol, 'aff) NicClusterPolicy \<Rightarrow> 'prov InfoCatalog \<Rightarrow> 'w
    \<Rightarrow> ((SyncState \<times> error option) \<times> 'w \<times> call list) option" where
  "stateCNIPlugins_Sync s ext cr infoCatalog w =
     (if cniPlugins_disabled cr then
        (case handleStateObjectsDeletion s w of
           (r, w') \<Rightarrow> Some (r, w', [Call_handleStateObjectsDeletion]))
      else case GetStaticConfigProvider infoCatalog of
        None \<Rightarrow>
          Some ((SyncStateError,
                 Some (New ''unexpected state, catalog does not provide static info'')), w, [])
      | Some staticInfo \<Rightarrow>
         (case getManifestObjects s ext cr staticInfo w of
            None \<Rightarrow> None
          | Some ((objs, Some err), w1) \<Rightarrow>
              Some ((SyncStateNotReady,
                     Some (Wrap err ''failed to create k8s objects from manifest'')),
                    w1, [Call_RenderObjects])
          | Some ((objs, None), w1) \<Rightarrow>
              if length objs = 0 then
                Some ((SyncStateNotReady, None), w1, [Call_RenderObjects])
              else
               (case createOrUpdateObjs s (setControllerReference ext cr) objs w1 of
                  ((Some err, objs'), w2) \<Rightarrow>
                    Some ((SyncStateNotReady, Some (Wrap err ''failed to create/update objects'')),
                          w2, [Call_RenderObjects, Call_createOrUpdateObjs])
                | ((None, objs'), w2) \<Rightarrow>
                   (case handleStaleStateObjects s objs' w2 of
                      ((waitForStaleObjectsRemoval, Some err), w3) \<Rightarrow>
                        Some ((SyncStateNotReady,
                               Some (Wrap err ''failed to handle state stale objects'')),
                              w3, [Call_RenderObjects, Call_createOrUpdateObjs,
                                   Call_handleStaleStateObjects waitForStaleObjectsRemoval])
                    | ((waitForStaleObjectsRemoval, None), w3) \<Rightarrow>
                        if waitForStaleObjectsRemoval then
                          Some ((SyncStateNotReady, None),
                                w3, [Call_RenderObjects, Call_createOrUpdateObjs,
                                     Call_handleStaleStateObjects waitForStaleObjectsRemoval])
                        else
                         (case getSyncState s objs' w3 of
                            ((syncState, Some err), w4) \<Rightarrow>
                              Some ((SyncStateNotReady,
                                     Some (Wrap err ''failed to get sync state'')),
                                    w4, [Call_RenderObjects, Call_createOrUpdateObjs,
                                         Call_handleStaleStateObjects waitForStaleObjectsRemoval,
                                         Call_getSyncState])
                          | ((syncState, None), w4) \<Rightarrow>
                              Some ((syncState, None),
                                    w4, [Call_RenderObjects, Call_createOrUpdateObjs,
                                         Call_handleStaleStateObjects waitForStaleObjectsRemoval,
                                         Call_getSyncState]))))))"


section \<open>The renderer\<close>

text \<open>
  Modelled from the spec: the renderer (package \<open>render\<close>) is not part of the sources at
  hand, only its test is. The specification gives its contract: the input is a list of
  template document paths and a binding context; the documents are processed in ascending
  lexicographic order of their path and the output keeps that order; a document that does
  not exist is the error NotFound, a template that refers to fields the binding context
  lacks is the error TemplateEvaluation, a document that is not a structured document once
  rendered is the error ParseFailure; on any error no object is returned; the parser is
  chosen by the suffix of the file.
\<close>

datatype render_error = NotFound | ParseFailure | TemplateEvaluation

text \<open>
  Modelled from the spec: what the renderer is given. \<open>read_file\<close> is the content of the
  template documents by path, \<open>evaluate\<close> the evaluation of the templating directives
  against a binding context, \<open>parser\<close> the parser for a file suffix.
\<close>

record ('ctx, 'obj) Renderer =
  files :: "string list"
  read_file :: "string \<Rightarrow> string option"
  evaluate :: "string \<Rightarrow> 'ctx \<Rightarrow> string option"
  parser :: "string \<Rightarrow> string \<Rightarrow> 'obj option"

text \<open>Modelled from the spec: the suffix of a path is what follows its last dot.\<close>

definition file_suffix :: "string \<Rightarrow> string" where
  "file_suffix path = rev (takeWhile (\<lambda>c. c \<noteq> CHR ''.'') (rev path))"

text \<open>Modelled from the spec: one template document to one rendered object.\<close>

definition render_document :: "('ctx, 'obj) Renderer \<Rightarrow> 'ctx \<Rightarrow> string \<Rightarrow> render_error + 'obj" where
  "render_document r ctx path =
     (case read_file r path of
        None \<Rightarrow> Inl NotFound
      | Some template \<Rightarrow>
         (case evaluate r template ctx of
            None \<Rightarrow> Inl TemplateEvaluation
          | Some text \<Rightarrow>
             (case parser r (file_suffix path) text of
                None \<Rightarrow> Inl ParseFailure
              | Some obj \<Rightarrow> Inr obj)))"

text \<open>
  Modelled from the spec: the documents in turn; the first error ends the call and no
  object is returned with it.
\<close>

fun render_all ::
  "('ctx, 'obj) Renderer \<Rightarrow> 'ctx \<Rightarrow> string list \<Rightarrow> 'obj list \<Rightarrow> 'obj list \<times> render_error option" where
  "render_all r ctx [] objs = (objs, None)"
| "render_all r ctx (path # rest) objs =
     (case render_document r ctx path of
        Inl e \<Rightarrow> ([], Some e)
      | Inr obj \<Rightarrow> render_all r ctx rest (objs @ [obj]))"

text \<open>
  Modelled from the spec: \<open>RenderObjects\<close>, the Go pair of the object sequence and the
  error. The paths are taken in ascending lexicographic order.
\<close>

definition Renderer_RenderObjects ::
  "('ctx, 'obj) Renderer \<Rightarrow> 'ctx \<Rightarrow> 'obj list \<times> render_error option" where
  "Renderer_RenderObjects r ctx = render_all r ctx (sort (files r)) []"

section \<open>Notions used to state the properties\<close>

text \<open>
  The world in which the \<open>i\<close>-th state of the list is synced when the states are synced
  one after the other from \<open>w\<close>, what its \<open>Sync\<close> returns there, and the \<open>Result\<close>
  made of its name and of these two values.
\<close>

definition world_before ::
  "('cr, 'cat, 'w, 'k) State list \<Rightarrow> 'cr \<Rightarrow> 'cat \<Rightarrow> 'w \<Rightarrow> nat \<Rightarrow> 'w" where
  "world_before sts cr cat w i = foldl (\<lambda>w' s. snd (Sync s cr cat w')) w (take i sts)"

definition outcome ::
  "('cr, 'cat, 'w, 'k) State list \<Rightarrow> 'cr \<Rightarrow> 'cat \<Rightarrow> 'w \<Rightarrow> nat \<Rightarrow> SyncState \<times> error option" where
  "outcome sts cr cat w i = fst (Sync (sts ! i) cr cat (world_before sts cr cat w i))"

definition result_of ::
  "('cr, 'cat, 'w, 'k) State list \<Rightarrow> 'cr \<Rightarrow> 'cat \<Rightarrow> 'w \<Rightarrow> nat \<Rightarrow> Result" where
  "result_of sts cr cat w i =
     \<lparr>StateName = State.Name (sts ! i), Status = fst (outcome sts cr cat w i),
      ErrInfo = snd (outcome sts cr cat w i)\<rparr>"

text \<open>
  The kind that the first state of the list declaring the name \<open>kindName\<close> declares for
  it, if any state declares it.
\<close>

definition first_declaration ::
  "('cr, 'cat, 'w, 'k) State list \<Rightarrow> string \<Rightarrow> 'k option" where
  "first_declaration sts kindName =
     (case find (\<lambda>s. map_of (GetWatchSources s) kindName \<noteq> None) sts of
        None \<Rightarrow> None
      | Some s \<Rightarrow> map_of (GetWatchSources s) kindName)"

section \<open>Concrete inputs\<close>

text \<open>
  A state whose \<open>Sync\<close> writes its name to the world, a list of names, and returns a
  fixed status and error.
\<close>

definition logging_state ::
  "string \<Rightarrow> SyncState \<Rightarrow> error option \<Rightarrow> (string \<times> nat) list \<Rightarrow> (unit, unit, string list, nat) State" where
  "logging_state n st err wr =
     \<lparr>Name = n, Description = ''a state'', Sync = (\<lambda>cr cat w. ((st, err), w @ [n])),
      GetWatchSources = wr\<rparr>"

definition failing_manager :: "(unit, unit, string list, nat) stateManager" where
  "failing_manager =
     \<lparr>states =
        [logging_state ''multus'' SyncStateError (Some (New ''boom''))
           [(''DaemonSet'', 1), (''ConfigMap'', 2)],
         logging_state ''cni'' SyncStateReady None [(''DaemonSet'', 3), (''Pod'', 4)]]\<rparr>"

definition ready_manager :: "(unit, unit, string list, nat) stateManager" where
  "ready_manager =
     \<lparr>states = [logging_state ''multus'' SyncStateReady None [],
                logging_state ''cni'' SyncStateReady None []]\<rparr>"

definition ignoring_manager :: "(unit, unit, string list, nat) stateManager" where
  "ignoring_manager =
     \<lparr>states = [logging_state ''multus'' (SyncStateOther ''ignore'') None [],
                logging_state ''cni'' SyncStateReady None []]\<rparr>"

text \<open>
  A skeleton over a world that is the list of the names of the live objects: rendering
  gives one object by image, creation adds the objects that are not live, the stale-object
  handling removes the live objects that are not desired and reports that it did, the
  deletion of the state objects empties the world, and the status evaluation leaves the
  mark \<open>status-evaluated\<close> in the world.
\<close>

definition list_skel :: "(string, string, string, string, string list) stateSkel" where
  "list_skel =
     \<lparr>name = ''state-container-networking-plugins'',
      description = ''Container Networking CNI Plugins deployed in the cluster'',
      RenderObjects = (\<lambda>d w. ((case CrSpec d of None \<Rightarrow> [] | Some img \<Rightarrow> if img = [] then [] else [img], None), w)),
      handleStateObjectsDeletion =
        (\<lambda>w. ((if w = [] then SyncStateReady else SyncStateNotReady, None), [])),
      createOrUpdateObjs =
        (\<lambda>f objs w. ((None, objs), w @ filter (\<lambda>obj. obj \<notin> set w) objs)),
      handleStaleStateObjects =
        (\<lambda>objs w. ((\<exists>x \<in> set w. x \<notin> set objs, None), filter (\<lambda>x. x \<in> set objs) w)),
      getSyncState = (\<lambda>objs w. ((SyncStateReady, None), w @ [''status-evaluated'']))\<rparr>"

definition list_externals ::
  "((string, string, string) NicClusterPolicy, string, string) externals" where
  "list_externals =
     \<lparr>NetworkOperatorResourceNamespace = ''nvidia-network-operator'',
      GetCniBinDirectory = (\<lambda>p. p),
      SetControllerReference = (\<lambda>cr obj. (None, obj))\<rparr>"

definition policy :: "string option \<Rightarrow> (string, string, string) NicClusterPolicy" where
  "policy cni =
     \<lparr>Spec = \<lparr>SecondaryNetwork = Some \<lparr>CniPlugins = cni\<rparr>, Tolerations = [],
              NodeAffinity = None\<rparr>\<rparr>"

definition policy_without_secondary_network :: "(string, string, string) NicClusterPolicy" where
  "policy_without_secondary_network =
     \<lparr>Spec = \<lparr>SecondaryNetwork = None, Tolerations = [], NodeAffinity = None\<rparr>\<rparr>"

text \<open>
  A renderer over three documents: a template is evaluated to itself unless it is
  \<open>{{.Missing}}\<close>, and a text parses to itself unless it is empty.
\<close>

definition manifest_files :: "string \<Rightarrow> string option" where
  "manifest_files path =
     (if path = ''a.yaml'' then Some ''kind: TestObj1''
      else if path = ''b.json'' then Some ''{kind: TestObj2}''
      else if path = ''c.yml'' then Some ''kind: TestObj3''
      else None)"

definition text_renderer :: "string list \<Rightarrow> (unit, string) Renderer" where
  "text_renderer fs =
     \<lparr>files = fs, read_file = manifest_files,
      evaluate = (\<lambda>t ctx. if t = ''{{.Missing}}'' then None else Some t),
      parser = (\<lambda>suffix text. if text = [] then None else Some text)\<rparr>"


section \<open>The state manager: one result per state, aggregate status\<close>

lemma world_before_0: "world_before sts cr cat w 0 = w"
  by (simp add: world_before_def)

lemma world_before_Suc:
  "world_before (s # sts) cr cat w (Suc i) = world_before sts cr cat (snd (Sync s cr cat w)) i"
  by (simp add: world_before_def)

lemma world_before_length:
  "world_before sts cr cat w (length sts) = foldl (\<lambda>w' s. snd (Sync s cr cat w')) w sts"
  by (simp add: world_before_def)

lemma outcome_0: "outcome (s # sts) cr cat w 0 = fst (Sync s cr cat w)"
  by (simp add: outcome_def world_before_0)

lemma outcome_Suc:
  "outcome (s # sts) cr cat w (Suc i) = outcome sts cr cat (snd (Sync s cr cat w)) i"
  by (simp add: outcome_def world_before_Suc)

lemma result_of_Suc:
  "result_of (s # sts) cr cat w (Suc i) = result_of sts cr cat (snd (Sync s cr cat w)) i"
  by (simp add: result_of_def outcome_Suc)

lemma all_less_Suc_shift: "(\<forall>i<Suc n. P i) \<longleftrightarrow> P 0 \<and> (\<forall>i<n. P (Suc i))"
  by (metis less_Suc_eq_0_disj)

lemma map_upt_shift: "map f [0..<Suc n] = f 0 # map (\<lambda>i. f (Suc i)) [0..<n]"
  by (simp add: map_upt_Suc del: upt_Suc)

text \<open>
  The loop in closed form, for any values of \<open>managerResult\<close> and \<open>statesReady\<close>
  at its entry: it appends one result per state and keeps \<open>statesReady\<close> only if no
  state returned NotReady or Error.
\<close>

lemma SyncState_loop_closed:
  "SyncState_loop sts cr cat (mr, rdy) w =
     ((mr\<lparr>StatesStatus := StatesStatus mr @ map (result_of sts cr cat w) [0..<length sts]\<rparr>,
       rdy \<and> (\<forall>i<length sts. fst (outcome sts cr cat w i) \<noteq> SyncStateNotReady
                                 \<and> fst (outcome sts cr cat w i) \<noteq> SyncStateError)),
      world_before sts cr cat w (length sts))"
proof (induction sts arbitrary: mr rdy w)
  case Nil
  show ?case by (simp add: world_before_0)
next
  case (Cons s sts)
  obtain ss err w' where S: "Sync s cr cat w = ((ss, err), w')"
    by (metis surj_pair)
  have R0: "result_of (s # sts) cr cat w 0
            = \<lparr>StateName = State.Name s, Status = ss, ErrInfo = err\<rparr>"
    by (simp add: result_of_def outcome_0 S)
  show ?case
    unfolding SyncState_loop.simps S prod.case Let_def Cons.IH
    by (auto simp add: map_upt_shift all_less_Suc_shift result_of_Suc outcome_Suc outcome_0
        world_before_Suc S R0 simp del: upt_Suc)
qed

lemma SyncState_closed:
  "stateManager_SyncState smgr cr cat w =
     (\<lparr>Status = (if \<forall>i<length (states smgr).
                        fst (outcome (states smgr) cr cat w i) \<noteq> SyncStateNotReady
                        \<and> fst (outcome (states smgr) cr cat w i) \<noteq> SyncStateError
                 then SyncStateReady else SyncStateNotReady),
       StatesStatus = map (result_of (states smgr) cr cat w) [0..<length (states smgr)]\<rparr>,
      foldl (\<lambda>w' s. snd (Sync s cr cat w')) w (states smgr))"
  by (simp add: stateManager_SyncState_def SyncState_loop_closed world_before_length)

lemma failing_outcomes:
  "length (states failing_manager) = 2"
  "outcome (states failing_manager) () () [] 0 = (SyncStateError, Some (New ''boom''))"
  "outcome (states failing_manager) () () [] (Suc 0) = (SyncStateReady, None)"
  by (simp_all add: failing_manager_def logging_state_def outcome_def world_before_def)

lemma ignoring_outcomes:
  "length (states ignoring_manager) = 2"
  "outcome (states ignoring_manager) () () [] 0 = (SyncStateOther ''ignore'', None)"
  "outcome (states ignoring_manager) () () [] (Suc 0) = (SyncStateReady, None)"
  by (simp_all add: ignoring_manager_def logging_state_def outcome_def world_before_def)

lemma ready_outcomes:
  "length (states ready_manager) = 2"
  "outcome (states ready_manager) () () [] 0 = (SyncStateReady, None)"
  "outcome (states ready_manager) () () [] (Suc 0) = (SyncStateReady, None)"
  by (simp_all add: ready_manager_def logging_state_def outcome_def world_before_def)

text \<open>
  The statement "the aggregate status is Ready only if the \<open>Sync\<close> of every state
  returned Ready" fails: with a first state whose \<open>Sync\<close> returns the status
  \<open>ignore\<close> and a second one that returns Ready, the aggregate status is Ready.
\<close>

theorem SyncState_aggregate_status_counterexample:
  "length (states ignoring_manager) = 2
   \<and> fst (outcome (states ignoring_manager) () () [] 0) = SyncStateOther ''ignore''
   \<and> SyncStateOther ''ignore'' \<noteq> SyncStateReady
   \<and> Results.Status (fst (stateManager_SyncState ignoring_manager () () [])) = SyncStateReady"
  by (simp add: ignoring_outcomes SyncState_closed all_less_Suc_shift numeral_2_eq_2)

text \<open>
  Claim C1, as the code has it. For every list of states, the aggregate status of the
  \<open>Results\<close> that \<open>SyncState\<close> returns is Ready if and only if the \<open>Sync\<close> of no
  state returned NotReady or Error, and it is NotReady otherwise; so it is Ready if the
  \<open>Sync\<close> of every state returned Ready, and NotReady if the \<open>Sync\<close> of some state
  returned NotReady or Error. The status of the \<open>i\<close>-th state is the one its \<open>Sync\<close>
  returns in the world that the states before it have left.
\<close>

theorem SyncState_aggregate_status:
  "(Results.Status (fst (stateManager_SyncState smgr cr cat w)) = SyncStateReady
      \<longleftrightarrow> (\<forall>i<length (states smgr).
             fst (outcome (states smgr) cr cat w i) \<noteq> SyncStateNotReady
             \<and> fst (outcome (states smgr) cr cat w i) \<noteq> SyncStateError))
   \<and> ((\<forall>i<length (states smgr). fst (outcome (states smgr) cr cat w i) = SyncStateReady)
        \<longrightarrow> Results.Status (fst (stateManager_SyncState smgr cr cat w)) = SyncStateReady)
   \<and> ((\<exists>i<length (states smgr).
          fst (outcome (states smgr) cr cat w i) = SyncStateNotReady
          \<or> fst (outcome (states smgr) cr cat w i) = SyncStateError)
        \<longrightarrow> Results.Status (fst (stateManager_SyncState smgr cr cat w)) = SyncStateNotReady)
   \<and> (Results.Status (fst (stateManager_SyncState smgr cr cat w)) = SyncStateReady
        \<or> Results.Status (fst (stateManager_SyncState smgr cr cat w)) = SyncStateNotReady)"
  by (auto simp: SyncState_closed)

theorem SyncState_aggregate_status_witness:
  "length (states ready_manager) = 2
   \<and> fst (outcome (states ready_manager) () () [] 0) = SyncStateReady
   \<and> fst (outcome (states ready_manager) () () [] (Suc 0)) = SyncStateReady
   \<and> Results.Status (fst (stateManager_SyncState ready_manager () () [])) = SyncStateReady
   \<and> (\<exists>i<length (states failing_manager).
         fst (outcome (states failing_manager) () () [] i) = SyncStateError)
   \<and> Results.Status (fst (stateManager_SyncState failing_manager () () [])) = SyncStateNotReady"
proof -
  have r: "\<forall>i<length (states ready_manager).
             fst (outcome (states ready_manager) () () [] i) = SyncStateReady"
    by (simp add: ready_outcomes all_less_Suc_shift numeral_2_eq_2)
  have f: "\<exists>i<length (states failing_manager).
         fst (outcome (states failing_manager) () () [] i) = SyncStateError"
    by (rule exI [of _ 0]) (simp add: failing_outcomes)
  from r SyncState_aggregate_status [of ready_manager "()" "()" "[]"]
  have "Results.Status (fst (stateManager_SyncState ready_manager () () [])) = SyncStateReady"
    by blast
  moreover from f SyncState_aggregate_status [of failing_manager "()" "()" "[]"]
  have "Results.Status (fst (stateManager_SyncState failing_manager () () []))
        = SyncStateNotReady"
    by blast
  ultimately show ?thesis
    using f by (simp add: ready_outcomes)
qed

text \<open>
  Claim C2. For every list of states, \<open>SyncState\<close> calls \<open>Sync\<close> on each state once,
  in the order of the list: the world it leaves is the one obtained by running the
  \<open>Sync\<close> of the states one after the other, and the returned \<open>Results\<close> holds one
  \<open>Result\<close> per state, in that order, with the name of the state and the status and
  error its \<open>Sync\<close> returned. This is so also when some \<open>Sync\<close> returns Error, and then
  the global status is NotReady.
\<close>

theorem SyncState_one_result_per_state:
  "StatesStatus (fst (stateManager_SyncState smgr cr cat w))
     = map (result_of (states smgr) cr cat w) [0..<length (states smgr)]
   \<and> map StateName (StatesStatus (fst (stateManager_SyncState smgr cr cat w)))
     = map State.Name (states smgr)
   \<and> snd (stateManager_SyncState smgr cr cat w)
     = foldl (\<lambda>w' s. snd (Sync s cr cat w')) w (states smgr)
   \<and> ((\<exists>i<length (states smgr). fst (outcome (states smgr) cr cat w i) = SyncStateError)
        \<longrightarrow> Results.Status (fst (stateManager_SyncState smgr cr cat w)) = SyncStateNotReady)"
proof -
  have "map StateName (map (result_of (states smgr) cr cat w) [0..<length (states smgr)])
        = map State.Name (states smgr)"
    by (rule nth_equalityI) (simp_all add: result_of_def)
  then show ?thesis
    by (auto simp: SyncState_closed)
qed

theorem SyncState_one_result_per_state_witness:
  "(\<exists>i<length (states failing_manager).
         fst (outcome (states failing_manager) () () [] i) = SyncStateError)
   \<and> stateManager_SyncState failing_manager () () []
     = (\<lparr>Status = SyncStateNotReady,
         StatesStatus =
           [\<lparr>StateName = ''multus'', Status = SyncStateError, ErrInfo = Some (New ''boom'')\<rparr>,
            \<lparr>StateName = ''cni'', Status = SyncStateReady, ErrInfo = None\<rparr>]\<rparr>,
        [''multus'', ''cni''])"
proof -
  have f: "\<exists>i<length (states failing_manager).
         fst (outcome (states failing_manager) () () [] i) = SyncStateError"
    by (rule exI [of _ 0]) (simp add: failing_outcomes)
  have n: "[0..<length (states failing_manager)] = [0, Suc 0]"
    by (simp add: failing_outcomes upt_rec)
  have rs: "result_of (states failing_manager) () () [] 0
            = \<lparr>StateName = ''multus'', Status = SyncStateError, ErrInfo = Some (New ''boom'')\<rparr>"
       "result_of (states failing_manager) () () [] (Suc 0)
            = \<lparr>StateName = ''cni'', Status = SyncStateReady, ErrInfo = None\<rparr>"
    by (simp_all add: result_of_def failing_outcomes)
       (simp_all add: failing_manager_def logging_state_def)
  have w: "foldl (\<lambda>w' s. snd (Sync s () () w')) [] (states failing_manager)
           = [''multus'', ''cni'']"
    by (simp add: failing_manager_def logging_state_def)
  from f SyncState_one_result_per_state [of failing_manager "()" "()" "[]"]
  show ?thesis
    by (simp add: n rs w prod_eq_iff Results.equality)
qed


section \<open>The state manager: watch sources\<close>

lemma add_watch_sources_lookup:
  "add_watch_sources wr kindMap n = (case kindMap n of None \<Rightarrow> map_of wr n | Some k \<Rightarrow> Some k)"
proof (induction wr arbitrary: kindMap)
  case Nil
  show ?case by (simp split: option.splits)
next
  case (Cons e wr)
  obtain name kind where e: "e = (name, kind)" by (cases e)
  show ?case
    by (simp add: e Cons.IH split: option.splits)
qed

lemma first_declaration_Nil: "first_declaration [] n = None"
  by (simp add: first_declaration_def)

lemma first_declaration_Cons:
  "first_declaration (s # sts) n =
     (case map_of (GetWatchSources s) n of None \<Rightarrow> first_declaration sts n | Some k \<Rightarrow> Some k)"
  by (auto simp: first_declaration_def split: option.splits)

text \<open>A name already in \<open>kindMap\<close> keeps its kind; a new name gets its first declaration.\<close>

lemma kindMap_loop_lookup:
  "kindMap_loop sts kindMap n =
     (case kindMap n of None \<Rightarrow> first_declaration sts n | Some k \<Rightarrow> Some k)"
proof (induction sts arbitrary: kindMap)
  case Nil
  show ?case by (simp add: first_declaration_Nil split: option.splits)
next
  case (Cons s sts)
  show ?case
    by (simp add: Cons.IH add_watch_sources_lookup first_declaration_Cons split: option.splits)
qed

lemma first_declaration_None:
  "first_declaration sts n = None \<longleftrightarrow> n \<notin> (\<Union>s\<in>set sts. fst ` set (GetWatchSources s))"
proof (induction sts)
  case Nil
  show ?case by (simp add: first_declaration_Nil)
next
  case (Cons s sts)
  show ?case
  proof (cases "map_of (GetWatchSources s) n")
    case None
    then have "n \<notin> fst ` set (GetWatchSources s)"
      by (simp add: map_of_eq_None_iff)
    with None Cons.IH show ?thesis
      by (simp add: first_declaration_Cons)
  next
    case (Some k)
    then have "(n, k) \<in> set (GetWatchSources s)"
      by (rule map_of_SomeD)
    then have "fst (n, k) \<in> fst ` set (GetWatchSources s)"
      by (rule imageI)
    then have "n \<in> fst ` set (GetWatchSources s)"
      by simp
    with Some show ?thesis
      by (simp add: first_declaration_Cons)
  qed
qed

lemma dom_kindMap_loop:
  "dom (kindMap_loop sts Map.empty) = (\<Union>s\<in>set sts. fst ` set (GetWatchSources s))"
proof -
  have "dom (kindMap_loop sts Map.empty) = {n. first_declaration sts n \<noteq> None}"
    by (simp add: dom_def kindMap_loop_lookup)
  also have "\<dots> = (\<Union>s\<in>set sts. fst ` set (GetWatchSources s))"
    by (auto simp: first_declaration_None)
  finally show ?thesis .
qed

lemma kinds_loop_closed:
  "set visit \<subseteq> dom kindMap \<Longrightarrow>
   kinds_loop kindMap visit (kinds, kindNames)
     = (kinds @ map (\<lambda>n. the (kindMap n)) visit, kindNames @ visit)"
  by (induction visit arbitrary: kinds kindNames) (auto split: option.splits)

lemma failing_manager_kindMap:
  "kindMap_loop (states failing_manager) Map.empty
     = [''DaemonSet'' \<mapsto> 1, ''ConfigMap'' \<mapsto> 2, ''Pod'' \<mapsto> 4]"
  by (simp add: failing_manager_def logging_state_def)

text \<open>
  Claim C8. \<open>GetWatchSources\<close> of the manager returns the union of the kinds that the
  states declare, with each kind name once: in whatever order the final \<open>range\<close> visits
  \<open>kindMap\<close>, the names that go with the returned kinds are pairwise distinct, they are
  exactly the names that some state declares, and the kind returned for a name is the one
  declared by the first state of the list that declares the name.
\<close>

theorem GetWatchSources_first_declaration_wins:
  assumes "range_order (kindMap_loop (states smgr) Map.empty) visit"
  shows "distinct (snd (stateManager_GetWatchSources smgr visit))
    \<and> set (snd (stateManager_GetWatchSources smgr visit))
        = (\<Union>s\<in>set (states smgr). fst ` set (GetWatchSources s))
    \<and> map Some (fst (stateManager_GetWatchSources smgr visit))
        = map (first_declaration (states smgr)) (snd (stateManager_GetWatchSources smgr visit))"
proof -
  let ?km = "kindMap_loop (states smgr) Map.empty"
  from assms have d: "distinct visit" and v: "set visit = dom ?km"
    by (simp_all add: range_order_def)
  from v have sub: "set visit \<subseteq> dom ?km" by simp
  have run: "stateManager_GetWatchSources smgr visit = (map (\<lambda>n. the (?km n)) visit, visit)"
    by (simp add: stateManager_GetWatchSources_def kinds_loop_closed [OF sub])
  have "Some (the (?km n)) = first_declaration (states smgr) n" if "n \<in> set visit" for n
  proof -
    from that v obtain k where "?km n = Some k" by auto
    then show ?thesis by (simp add: kindMap_loop_lookup)
  qed
  then have "map Some (map (\<lambda>n. the (?km n)) visit) = map (first_declaration (states smgr)) visit"
    by simp
  with d v show ?thesis
    by (simp add: run dom_kindMap_loop)
qed

theorem GetWatchSources_first_declaration_wins_witness:
  "range_order (kindMap_loop (states failing_manager) Map.empty)
     [''Pod'', ''DaemonSet'', ''ConfigMap'']
   \<and> stateManager_GetWatchSources failing_manager [''Pod'', ''DaemonSet'', ''ConfigMap'']
       = ([4, 1, 2], [''Pod'', ''DaemonSet'', ''ConfigMap''])
   \<and> map (first_declaration (states failing_manager)) [''Pod'', ''DaemonSet'', ''ConfigMap'']
       = [Some 4, Some 1, Some 2]"
proof -
  have ro: "range_order (kindMap_loop (states failing_manager) Map.empty)
              [''Pod'', ''DaemonSet'', ''ConfigMap'']"
    by (auto simp: failing_manager_kindMap range_order_def)
  have run: "stateManager_GetWatchSources failing_manager [''Pod'', ''DaemonSet'', ''ConfigMap'']
       = ([4, 1, 2], [''Pod'', ''DaemonSet'', ''ConfigMap''])"
    by (simp add: stateManager_GetWatchSources_def failing_manager_kindMap)
  from GetWatchSources_first_declaration_wins [OF ro] ro run
  show ?thesis by simp
qed

section \<open>The CNI plugins state: the paths of Sync\<close>

lemma disabled_policies:
  "cniPlugins_disabled policy_without_secondary_network"
  "cniPlugins_disabled (policy None)"
  "\<not> cniPlugins_disabled (policy (Some img))"
  by (simp_all add: cniPlugins_disabled_def policy_without_secondary_network_def policy_def)

text \<open>\<open>Sync\<close> returns on every input: the dereference in \<open>getManifestObjects\<close> is guarded.\<close>

lemma Sync_returns:
  "\<exists>r w' calls. stateCNIPlugins_Sync s ext cr infoCatalog w = Some (r, w', calls)"
proof (cases "cniPlugins_disabled cr")
  case True
  then show ?thesis
    by (simp add: stateCNIPlugins_Sync_def split: prod.splits)
next
  case False
  then obtain sn where sn: "SecondaryNetwork (Spec cr) = Some sn"
    by (auto simp: cniPlugins_disabled_def split: option.splits)
  have m: "\<exists>x. getManifestObjects s ext cr p w = Some x" for p
    by (simp add: getManifestObjects_def sn Let_def split: prod.splits option.splits)
  show ?thesis
  proof (cases "GetStaticConfigProvider infoCatalog")
    case None
    with False show ?thesis by (simp add: stateCNIPlugins_Sync_def)
  next
    case (Some p)
    from m [of p] obtain x where x: "getManifestObjects s ext cr p w = Some x" by blast
    from False Some x show ?thesis
      by (simp add: stateCNIPlugins_Sync_def split: prod.splits option.splits)
  qed
qed

text \<open>
  The path on which the stale-object handling is reached, read in both directions: a run
  whose calls include a pending stale-object handling went through it, and every run that
  goes through it ends with the result, the world and the calls of that handling.
\<close>

lemma Sync_pending_path:
  assumes "stateCNIPlugins_Sync s ext cr infoCatalog w = Some (r, w', calls)"
    and "Call_handleStaleStateObjects True \<in> set calls"
  shows "\<exists>staticInfo objs w1 objs' w2 err.
           \<not> cniPlugins_disabled cr
           \<and> GetStaticConfigProvider infoCatalog = Some staticInfo
           \<and> getManifestObjects s ext cr staticInfo w = Some ((objs, None), w1)
           \<and> objs \<noteq> []
           \<and> createOrUpdateObjs s (setControllerReference ext cr) objs w1 = ((None, objs'), w2)
           \<and> handleStaleStateObjects s objs' w2 = ((True, err), w')
           \<and> r = (SyncStateNotReady,
                    map_option (\<lambda>e. Wrap e ''failed to handle state stale objects'') err)
           \<and> calls = [Call_RenderObjects, Call_createOrUpdateObjs,
                       Call_handleStaleStateObjects True]"
  using assms
  by (auto simp: stateCNIPlugins_Sync_def split: if_splits option.splits prod.splits)

lemma Sync_pending_result:
  assumes "\<not> cniPlugins_disabled cr"
    and "GetStaticConfigProvider infoCatalog = Some staticInfo"
    and "getManifestObjects s ext cr staticInfo w = Some ((objs, None), w1)"
    and "objs \<noteq> []"
    and "createOrUpdateObjs s (setControllerReference ext cr) objs w1 = ((None, objs'), w2)"
    and "handleStaleStateObjects s objs' w2 = ((True, err), w3)"
  shows "stateCNIPlugins_Sync s ext cr infoCatalog w
         = Some ((SyncStateNotReady,
                  map_option (\<lambda>e. Wrap e ''failed to handle state stale objects'') err),
                 w3, [Call_RenderObjects, Call_createOrUpdateObjs,
                      Call_handleStaleStateObjects True])"
  using assms by (cases err) (simp_all add: stateCNIPlugins_Sync_def)

lemma stale_object_steps:
  "getManifestObjects list_skel list_externals (policy (Some ''img'')) ''/opt/cni/bin'' [''old-ds'']
     = Some (([''img''], None), [''old-ds''])"
  "createOrUpdateObjs list_skel (setControllerReference list_externals (policy (Some ''img'')))
       [''img''] [''old-ds'']
     = ((None, [''img'']), [''old-ds'', ''img''])"
  "handleStaleStateObjects list_skel [''img''] [''old-ds'', ''img''] = ((True, None), [''img''])"
  "getSyncState list_skel [''img''] [''img'']
     = ((SyncStateReady, None), [''img'', ''status-evaluated''])"
  by (simp_all add: getManifestObjects_def policy_def list_skel_def)

lemma getManifestObjects_empty_image:
  "getManifestObjects list_skel list_externals (policy (Some [])) ''/opt/cni/bin'' [''old-ds'']
     = Some (([], None), [''old-ds''])"
  by (simp add: getManifestObjects_def policy_def list_skel_def)

lemma Sync_with_stale_object:
  "stateCNIPlugins_Sync list_skel list_externals (policy (Some ''img''))
         \<lparr>GetStaticConfigProvider = Some ''/opt/cni/bin''\<rparr> [''old-ds'']
     = Some ((SyncStateNotReady, None), [''img''],
             [Call_RenderObjects, Call_createOrUpdateObjs, Call_handleStaleStateObjects True])"
  by (simp add: stateCNIPlugins_Sync_def getManifestObjects_def cniPlugins_disabled_def
      policy_def list_skel_def)


text \<open>
  Claim C5. In every \<open>Sync\<close> call in which the stale-object handling reports that
  deletions are pending (it returns a true \<open>waitForStaleObjectsRemoval\<close>), \<open>Sync\<close>
  returns NotReady and does not go on to the status evaluation: \<open>getSyncState\<close> is not
  called, the calls made are the rendering, the creation or update and the stale-object
  handling, and the world \<open>Sync\<close> leaves is the very world that the stale-object
  handling left. \<open>Sync\<close> returns in every call. The second part says the same from the
  side of the helpers: whenever the steps before succeed and the stale-object handling
  returns true, with or without an error, this is what \<open>Sync\<close> returns.
\<close>

theorem Sync_stale_objects_pending:
  "(\<exists>r w' calls.
      stateCNIPlugins_Sync s ext cr infoCatalog w = Some (r, w', calls)
      \<and> (Call_handleStaleStateObjects True \<in> set calls
           \<longrightarrow> fst r = SyncStateNotReady
               \<and> Call_getSyncState \<notin> set calls
               \<and> calls = [Call_RenderObjects, Call_createOrUpdateObjs,
                           Call_handleStaleStateObjects True]
               \<and> (\<exists>staticInfo' objs0 w1' objs1 w2' err'.
                     GetStaticConfigProvider infoCatalog = Some staticInfo'
                     \<and> getManifestObjects s ext cr staticInfo' w = Some ((objs0, None), w1')
                     \<and> createOrUpdateObjs s (setControllerReference ext cr) objs0 w1'
                         = ((None, objs1), w2')
                     \<and> handleStaleStateObjects s objs1 w2' = ((True, err'), w')
                     \<and> snd r = map_option
                           (\<lambda>e. Wrap e ''failed to handle state stale objects'') err')))
   \<and> (\<not> cniPlugins_disabled cr
        \<and> GetStaticConfigProvider infoCatalog = Some staticInfo
        \<and> getManifestObjects s ext cr staticInfo w = Some ((objs, None), w1)
        \<and> objs \<noteq> []
        \<and> createOrUpdateObjs s (setControllerReference ext cr) objs w1 = ((None, objs'), w2)
        \<and> handleStaleStateObjects s objs' w2 = ((True, err), w3)
        \<longrightarrow> stateCNIPlugins_Sync s ext cr infoCatalog w
            = Some ((SyncStateNotReady,
                     map_option (\<lambda>e. Wrap e ''failed to handle state stale objects'') err),
                    w3, [Call_RenderObjects, Call_createOrUpdateObjs,
                         Call_handleStaleStateObjects True]))"
proof (rule conjI)
  from Sync_returns [of s ext cr infoCatalog w] obtain r w' calls
    where run: "stateCNIPlugins_Sync s ext cr infoCatalog w = Some (r, w', calls)"
    by blast
  have "fst r = SyncStateNotReady
        \<and> Call_getSyncState \<notin> set calls
        \<and> calls = [Call_RenderObjects, Call_createOrUpdateObjs,
                    Call_handleStaleStateObjects True]
        \<and> (\<exists>staticInfo' objs0 w1' objs1 w2' err'.
              GetStaticConfigProvider infoCatalog = Some staticInfo'
              \<and> getManifestObjects s ext cr staticInfo' w = Some ((objs0, None), w1')
              \<and> createOrUpdateObjs s (setControllerReference ext cr) objs0 w1'
                  = ((None, objs1), w2')
              \<and> handleStaleStateObjects s objs1 w2' = ((True, err'), w')
              \<and> snd r = map_option
                    (\<lambda>e. Wrap e ''failed to handle state stale objects'') err')"
    if pending: "Call_handleStaleStateObjects True \<in> set calls"
  proof -
    from Sync_pending_path [OF run pending] obtain staticInfo' objs0 w1' objs1 w2' err'
      where p: "GetStaticConfigProvider infoCatalog = Some staticInfo'"
        "getManifestObjects s ext cr staticInfo' w = Some ((objs0, None), w1')"
        "createOrUpdateObjs s (setControllerReference ext cr) objs0 w1' = ((None, objs1), w2')"
        "handleStaleStateObjects s objs1 w2' = ((True, err'), w')"
        and r: "r = (SyncStateNotReady,
                     map_option (\<lambda>e. Wrap e ''failed to handle state stale objects'') err')"
        and c: "calls = [Call_RenderObjects, Call_createOrUpdateObjs,
                         Call_handleStaleStateObjects True]"
      by blast
    from r have r1: "fst r = SyncStateNotReady"
      and r2: "snd r = map_option (\<lambda>e. Wrap e ''failed to handle state stale objects'') err'"
      by simp_all
    from c have n: "Call_getSyncState \<notin> set calls" by simp
    from p r2 have "\<exists>staticInfo' objs0 w1' objs1 w2' err'.
              GetStaticConfigProvider infoCatalog = Some staticInfo'
              \<and> getManifestObjects s ext cr staticInfo' w = Some ((objs0, None), w1')
              \<and> createOrUpdateObjs s (setControllerReference ext cr) objs0 w1'
                  = ((None, objs1), w2')
              \<and> handleStaleStateObjects s objs1 w2' = ((True, err'), w')
              \<and> snd r = map_option
                    (\<lambda>e. Wrap e ''failed to handle state stale objects'') err'"
      by blast
    with r1 n c show ?thesis by blast
  qed
  with run show "\<exists>r w' calls.
      stateCNIPlugins_Sync s ext cr infoCatalog w = Some (r, w', calls)
      \<and> (Call_handleStaleStateObjects True \<in> set calls
           \<longrightarrow> fst r = SyncStateNotReady
               \<and> Call_getSyncState \<notin> set calls
               \<and> calls = [Call_RenderObjects, Call_createOrUpdateObjs,
                           Call_handleStaleStateObjects True]
               \<and> (\<exists>staticInfo' objs0 w1' objs1 w2' err'.
                     GetStaticConfigProvider infoCatalog = Some staticInfo'
                     \<and> getManifestObjects s ext cr staticInfo' w = Some ((objs0, None), w1')
                     \<and> createOrUpdateObjs s (setControllerReference ext cr) objs0 w1'
                         = ((None, objs1), w2')
                     \<and> handleStaleStateObjects s objs1 w2' = ((True, err'), w')
                     \<and> snd r = map_option
                           (\<lambda>e. Wrap e ''failed to handle state stale objects'') err'))"
    by blast
next
  show "\<not> cniPlugins_disabled cr
        \<and> GetStaticConfigProvider infoCatalog = Some staticInfo
        \<and> getManifestObjects s ext cr staticInfo w = Some ((objs, None), w1)
        \<and> objs \<noteq> []
        \<and> createOrUpdateObjs s (setControllerReference ext cr) objs w1 = ((None, objs'), w2)
        \<and> handleStaleStateObjects s objs' w2 = ((True, err), w3)
        \<longrightarrow> stateCNIPlugins_Sync s ext cr infoCatalog w
            = Some ((SyncStateNotReady,
                     map_option (\<lambda>e. Wrap e ''failed to handle state stale objects'') err),
                    w3, [Call_RenderObjects, Call_createOrUpdateObjs,
                         Call_handleStaleStateObjects True])"
    using Sync_pending_result [of cr infoCatalog staticInfo s ext w objs w1 objs' w2 err w3]
    by blast
qed

theorem Sync_stale_objects_pending_witness:
  "\<not> cniPlugins_disabled (policy (Some ''img''))
   \<and> getManifestObjects list_skel list_externals (policy (Some ''img'')) ''/opt/cni/bin''
         [''old-ds'']
       = Some (([''img''], None), [''old-ds''])
   \<and> createOrUpdateObjs list_skel (setControllerReference list_externals (policy (Some ''img'')))
         [''img''] [''old-ds'']
       = ((None, [''img'']), [''old-ds'', ''img''])
   \<and> handleStaleStateObjects list_skel [''img''] [''old-ds'', ''img'']
       = ((True, None), [''img''])
   \<and> getSyncState list_skel [''img''] [''img'']
       = ((SyncStateReady, None), [''img'', ''status-evaluated''])
   \<and> stateCNIPlugins_Sync list_skel list_externals (policy (Some ''img''))
         \<lparr>GetStaticConfigProvider = Some ''/opt/cni/bin''\<rparr> [''old-ds'']
       = Some ((SyncStateNotReady, None), [''img''],
               [Call_RenderObjects, Call_createOrUpdateObjs, Call_handleStaleStateObjects True])
   \<and> Call_handleStaleStateObjects True
       \<in> set [Call_RenderObjects, Call_createOrUpdateObjs, Call_handleStaleStateObjects True]
   \<and> Call_getSyncState
       \<notin> set [Call_RenderObjects, Call_createOrUpdateObjs, Call_handleStaleStateObjects True]"
proof -
  have d: "\<not> cniPlugins_disabled (policy (Some ''img''))"
    by (simp add: disabled_policies)
  have p: "GetStaticConfigProvider \<lparr>GetStaticConfigProvider = Some ''/opt/cni/bin''\<rparr>
           = Some ''/opt/cni/bin''"
    by simp
  have ne: "[''img''] \<noteq> []" by simp
  from Sync_stale_objects_pending [where s = list_skel and ext = list_externals
      and cr = "policy (Some ''img'')"
      and infoCatalog = "\<lparr>GetStaticConfigProvider = Some ''/opt/cni/bin''\<rparr>"
      and w = "[''old-ds'']" and staticInfo = "''/opt/cni/bin''" and objs = "[''img'']"
      and ?w1.0 = "[''old-ds'']" and objs' = "[''img'']" and ?w2.0 = "[''old-ds'', ''img'']"
      and err = None and ?w3.0 = "[''img'']"]
    d p ne stale_object_steps(1) stale_object_steps(2) stale_object_steps(3)
  have run: "stateCNIPlugins_Sync list_skel list_externals (policy (Some ''img''))
         \<lparr>GetStaticConfigProvider = Some ''/opt/cni/bin''\<rparr> [''old-ds'']
       = Some ((SyncStateNotReady, None), [''img''],
               [Call_RenderObjects, Call_createOrUpdateObjs, Call_handleStaleStateObjects True])"
    by simp
  with d stale_object_steps show ?thesis
    by simp
qed

text \<open>
  Claim C6. When the custom resource disables the sub-system (\<open>Spec.SecondaryNetwork\<close>
  is nil, or its \<open>CniPlugins\<close> is nil), \<open>Sync\<close> renders nothing and creates or updates
  nothing: its only call is \<open>handleStateObjectsDeletion\<close>, the deletion of the objects
  of the state, and it returns the status and the error which that call returns.
\<close>

theorem Sync_disabled_only_deletes:
  assumes "cniPlugins_disabled cr"
  shows "stateCNIPlugins_Sync s ext cr infoCatalog w
         = Some (fst (handleStateObjectsDeletion s w), snd (handleStateObjectsDeletion s w),
                 [Call_handleStateObjectsDeletion])"
  using assms by (simp add: stateCNIPlugins_Sync_def split: prod.splits)

theorem Sync_disabled_only_deletes_witness:
  "cniPlugins_disabled policy_without_secondary_network
   \<and> cniPlugins_disabled (policy None)
   \<and> stateCNIPlugins_Sync list_skel list_externals policy_without_secondary_network
         \<lparr>GetStaticConfigProvider = Some ''/opt/cni/bin''\<rparr> [''old-ds'']
       = Some ((SyncStateNotReady, None), [], [Call_handleStateObjectsDeletion])
   \<and> stateCNIPlugins_Sync list_skel list_externals (policy None)
         \<lparr>GetStaticConfigProvider = None\<rparr> []
       = Some ((SyncStateReady, None), [], [Call_handleStateObjectsDeletion])"
  using Sync_disabled_only_deletes [of policy_without_secondary_network list_skel list_externals
          "\<lparr>GetStaticConfigProvider = Some ''/opt/cni/bin''\<rparr>" "[''old-ds'']"]
        Sync_disabled_only_deletes [of "policy None" list_skel list_externals
          "\<lparr>GetStaticConfigProvider = None\<rparr>" "[]"]
  by (simp add: disabled_policies list_skel_def)

text \<open>
  Claim C7. In every \<open>Sync\<close> call whose desired set is empty (the sub-system is enabled,
  the catalog gives a static config provider and \<open>getManifestObjects\<close> returns no
  object and no error), \<open>Sync\<close> returns NotReady with no error, right after the
  rendering.
\<close>

theorem Sync_empty_desired_set:
  assumes "\<not> cniPlugins_disabled cr"
    and "GetStaticConfigProvider infoCatalog = Some staticInfo"
    and "getManifestObjects s ext cr staticInfo w = Some (([], None), w1)"
  shows "stateCNIPlugins_Sync s ext cr infoCatalog w
         = Some ((SyncStateNotReady, None), w1, [Call_RenderObjects])"
  using assms by (simp add: stateCNIPlugins_Sync_def)

theorem Sync_empty_desired_set_witness:
  "\<not> cniPlugins_disabled (policy (Some []))
   \<and> getManifestObjects list_skel list_externals (policy (Some [])) ''/opt/cni/bin'' [''old-ds'']
       = Some (([], None), [''old-ds''])
   \<and> stateCNIPlugins_Sync list_skel list_externals (policy (Some []))
         \<lparr>GetStaticConfigProvider = Some ''/opt/cni/bin''\<rparr> [''old-ds'']
       = Some ((SyncStateNotReady, None), [''old-ds''], [Call_RenderObjects])"
proof -
  have d: "\<not> cniPlugins_disabled (policy (Some []))"
    by (simp add: disabled_policies)
  have p: "GetStaticConfigProvider \<lparr>GetStaticConfigProvider = Some ''/opt/cni/bin''\<rparr>
           = Some ''/opt/cni/bin''"
    by simp
  from Sync_empty_desired_set [OF d p getManifestObjects_empty_image] d
    getManifestObjects_empty_image
  show ?thesis by simp
qed

text \<open>
  Claim C10. When the custom resource enables the sub-system and the catalog gives no
  static config provider (\<open>GetStaticConfigProvider\<close> returns nil), \<open>Sync\<close> returns the
  status Error with an error that is not nil; it calls neither the renderer nor the
  skeleton, and leaves the world as it found it.
\<close>

theorem Sync_without_static_config_provider:
  assumes "\<not> cniPlugins_disabled cr" and "GetStaticConfigProvider infoCatalog = None"
  shows "stateCNIPlugins_Sync s ext cr infoCatalog w
         = Some ((SyncStateError,
                  Some (New ''unexpected state, catalog does not provide static info'')), w, [])"
  using assms by (simp add: stateCNIPlugins_Sync_def)

theorem Sync_without_static_config_provider_witness:
  "\<not> cniPlugins_disabled (policy (Some ''img''))
   \<and> GetStaticConfigProvider \<lparr>GetStaticConfigProvider = (None :: string option)\<rparr> = None
   \<and> stateCNIPlugins_Sync list_skel list_externals (policy (Some ''img''))
         \<lparr>GetStaticConfigProvider = None\<rparr> [''old-ds'']
       = Some ((SyncStateError,
                Some (New ''unexpected state, catalog does not provide static info'')),
               [''old-ds''], [])"
  using Sync_without_static_config_provider [of "policy (Some ''img'')"
          "\<lparr>GetStaticConfigProvider = None\<rparr>" list_skel list_externals "[''old-ds'']"]
  by (simp add: disabled_policies)

section \<open>The renderer: order and failure\<close>

lemma render_all_ok:
  "\<forall>p\<in>set ps. \<exists>obj. render_document r ctx p = Inr obj \<Longrightarrow>
   \<exists>new. render_all r ctx ps objs = (objs @ new, None)
         \<and> map Inr new = map (render_document r ctx) ps"
proof (induction ps arbitrary: objs)
  case Nil
  show ?case by simp
next
  case (Cons p ps)
  from Cons.prems obtain obj where p: "render_document r ctx p = Inr obj"
    by auto
  from Cons.prems have "\<forall>p\<in>set ps. \<exists>obj. render_document r ctx p = Inr obj"
    by simp
  from Cons.IH [OF this, of "objs @ [obj]"] obtain new
    where "render_all r ctx ps (objs @ [obj]) = ((objs @ [obj]) @ new, None)"
      and "map Inr new = map (render_document r ctx) ps"
    by blast
  then have "render_all r ctx (p # ps) objs = (objs @ (obj # new), None)
      \<and> map Inr (obj # new) = map (render_document r ctx) (p # ps)"
    by (simp add: p)
  then show ?case by blast
qed

lemma render_all_error:
  "\<exists>p\<in>set ps. \<exists>e. render_document r ctx p = Inl e \<Longrightarrow>
   \<exists>e. render_all r ctx ps objs = ([], Some e) \<and> (\<exists>p\<in>set ps. render_document r ctx p = Inl e)"
proof (induction ps arbitrary: objs)
  case Nil
  then show ?case by simp
next
  case (Cons p ps)
  show ?case
  proof (cases "render_document r ctx p")
    case (Inl e)
    then show ?thesis by simp
  next
    case (Inr obj)
    with Cons.prems have "\<exists>p\<in>set ps. \<exists>e. render_document r ctx p = Inl e"
      by auto
    from Cons.IH [OF this, of "objs @ [obj]"] Inr show ?thesis
      by auto
  qed
qed

lemma three_documents:
  "render_document (text_renderer fs) () ''a.yaml'' = Inr ''kind: TestObj1''"
  "render_document (text_renderer fs) () ''b.json'' = Inr ''{kind: TestObj2}''"
  "render_document (text_renderer fs) () ''c.yml'' = Inr ''kind: TestObj3''"
  "render_document (text_renderer fs) () ''doesNotExist.yaml'' = Inl NotFound"
  by (simp_all add: render_document_def text_renderer_def manifest_files_def)

lemma sorted_three: "sorted (files (text_renderer [''a.yaml'', ''b.json'', ''c.yml'']))"
  by (simp add: text_renderer_def)

text \<open>
  Claim C9. For the empty list of template documents, \<open>RenderObjects\<close> returns the
  empty object sequence and no error.
\<close>

theorem RenderObjects_empty:
  "Renderer_RenderObjects (r\<lparr>files := []\<rparr>) ctx = ([], None)"
  by (simp add: Renderer_RenderObjects_def)

text \<open>
  Claim C4. If some document of the list is missing, does not parse as a structured
  document, or refers to fields that the binding context lacks (its rendering is one of
  the three errors), then \<open>RenderObjects\<close> returns an error and the empty object
  sequence, never a part of the sequence, also when documents before it in the order
  rendered; the error is the one of a document of the list.
\<close>

theorem RenderObjects_all_or_nothing:
  assumes "\<exists>p\<in>set (files r). \<exists>e. render_document r ctx p = Inl e"
  shows "\<exists>e. Renderer_RenderObjects r ctx = ([], Some e)
             \<and> (\<exists>p\<in>set (files r). render_document r ctx p = Inl e)"
proof -
  from assms have "\<exists>p\<in>set (sort (files r)). \<exists>e. render_document r ctx p = Inl e"
    by simp
  from render_all_error [OF this, of "[]"] show ?thesis
    by (simp add: Renderer_RenderObjects_def)
qed

theorem RenderObjects_all_or_nothing_witness:
  "(\<exists>p\<in>set (files (text_renderer [''a.yaml'', ''doesNotExist.yaml''])).
      \<exists>e. render_document (text_renderer [''a.yaml'', ''doesNotExist.yaml'']) () p = Inl e)
   \<and> render_document (text_renderer [''a.yaml'', ''doesNotExist.yaml'']) () ''a.yaml''
       = Inr ''kind: TestObj1''
   \<and> Renderer_RenderObjects (text_renderer [''a.yaml'', ''doesNotExist.yaml'']) ()
       = ([], Some NotFound)"
proof -
  let ?r = "text_renderer [''a.yaml'', ''doesNotExist.yaml'']"
  have fs: "set (files ?r) = {''a.yaml'', ''doesNotExist.yaml''}"
    by (simp add: text_renderer_def)
  have h: "\<exists>p\<in>set (files ?r). \<exists>e. render_document ?r () p = Inl e"
    unfolding fs by (simp add: three_documents)
  from RenderObjects_all_or_nothing [OF h] obtain e p
    where run: "Renderer_RenderObjects ?r () = ([], Some e)"
      and p: "p \<in> set (files ?r)" and e: "render_document ?r () p = Inl e"
    by blast
  from p e have "e = NotFound"
    unfolding fs by (auto simp: three_documents)
  with run h show ?thesis
    by (simp add: three_documents)
qed

text \<open>
  Claim C3. For a template set whose \<open>N\<close> paths are in ascending lexicographic order,
  whatever their suffixes, \<open>RenderObjects\<close> succeeds exactly when every document
  renders, and it then returns \<open>N\<close> objects in the order of the paths: the \<open>i\<close>-th
  object is the rendering of the \<open>i\<close>-th path.
\<close>

theorem RenderObjects_order:
  assumes "sorted (files r)"
  shows "(snd (Renderer_RenderObjects r ctx) = None
            \<longleftrightarrow> (\<forall>p\<in>set (files r). \<exists>obj. render_document r ctx p = Inr obj))
       \<and> (snd (Renderer_RenderObjects r ctx) = None
            \<longrightarrow> length (fst (Renderer_RenderObjects r ctx)) = length (files r)
               \<and> map Inr (fst (Renderer_RenderObjects r ctx))
                 = map (render_document r ctx) (files r))"
proof (cases "\<forall>p\<in>set (files r). \<exists>obj. render_document r ctx p = Inr obj")
  case True
  from assms have s: "sort (files r) = files r"
    by (rule sort_key_id_if_sorted [of "\<lambda>x. x", simplified])
  from render_all_ok [OF True, of "[]"] obtain new
    where run: "render_all r ctx (files r) [] = (new, None)"
      and new: "map Inr new = map (render_document r ctx) (files r)"
    by auto
  from new have "length (map Inr new :: (render_error + 'b) list)
                 = length (map (render_document r ctx) (files r))"
    by simp
  then have "length new = length (files r)"
    by simp
  with run new True show ?thesis
    by (simp add: Renderer_RenderObjects_def s)
next
  case False
  then obtain p where "p \<in> set (files r)" and "\<forall>obj. render_document r ctx p \<noteq> Inr obj"
    by blast
  then have "\<exists>p\<in>set (sort (files r)). \<exists>e. render_document r ctx p = Inl e"
    by (cases "render_document r ctx p") auto
  from render_all_error [OF this, of "[]"] False show ?thesis
    by (auto simp: Renderer_RenderObjects_def)
qed

theorem RenderObjects_order_witness:
  "sorted (files (text_renderer [''a.yaml'', ''b.json'', ''c.yml'']))
   \<and> map (render_document (text_renderer [''a.yaml'', ''b.json'', ''c.yml'']) ())
         (files (text_renderer [''a.yaml'', ''b.json'', ''c.yml'']))
       = [Inr ''kind: TestObj1'', Inr ''{kind: TestObj2}'', Inr ''kind: TestObj3'']
   \<and> Renderer_RenderObjects (text_renderer [''a.yaml'', ''b.json'', ''c.yml'']) ()
       = ([''kind: TestObj1'', ''{kind: TestObj2}'', ''kind: TestObj3''], None)"
proof -
  let ?r = "text_renderer [''a.yaml'', ''b.json'', ''c.yml'']"
  have fs: "files ?r = [''a.yaml'', ''b.json'', ''c.yml'']"
    by (simp add: text_renderer_def)
  have all: "\<forall>p\<in>set (files ?r). \<exists>obj. render_document ?r () p = Inr obj"
    unfolding fs by (simp add: three_documents)
  from RenderObjects_order [OF sorted_three, of "()"] all
  have ok: "snd (Renderer_RenderObjects ?r ()) = None"
    and objs: "map Inr (fst (Renderer_RenderObjects ?r ()))
               = map (render_document ?r ()) (files ?r)"
    by blast+
  from objs have "map Inr (fst (Renderer_RenderObjects ?r ()))
      = [Inr ''kind: TestObj1'', Inr ''{kind: TestObj2}'', Inr ''kind: TestObj3'' :: render_error + string]"
    unfolding fs by (simp add: three_documents)
  then have "fst (Renderer_RenderObjects ?r ())
      = [''kind: TestObj1'', ''{kind: TestObj2}'', ''kind: TestObj3'']"
    by (auto simp: map_eq_Cons_conv)
  with ok sorted_three show ?thesis
    by (simp add: prod_eq_iff fs three_documents)
qed

end
